theory Spec2Isabelle
  imports Main "HOL-Library.AList"
begin

section \<open>Values, options and the downloader collaborator\<close>

text \<open>
  The options handed to the downloader are a Python dict from strings to strings,
  booleans and a list of dicts. A dict is kept as an association list in insertion order.
\<close>

datatype pyval =
    PStr string
  | PBool bool
  | PList "pyval list"
  | PDict "(string \<times> pyval) list"

type_synonym pydict = "(string \<times> pyval) list"

text \<open>
  An exception object as the program and the interpreter see it: whether it is an
  instance of \<open>Exception\<close> (what \<open>except Exception\<close> tests), its \<open>str\<close>, and the
  exit status with which the interpreter ends the process when the exception leaves the
  script uncaught. \<open>KeyboardInterrupt\<close>, \<open>SystemExit\<close> and \<open>GeneratorExit\<close> derive
  from \<open>BaseException\<close> only. Uncaught, \<open>SystemExit(n)\<close> ends the process with
  status \<open>n\<close> and prints nothing; \<open>GeneratorExit\<close> and every other class end it with
  status 1 after a traceback, except that \<open>KeyboardInterrupt\<close> ends it by the interrupt
  signal where the platform has one (status 130 in a POSIX shell).
\<close>

datatype py_exception =
  PyException (is_Exception: bool) (message: string) (uncaught_status: int)

text \<open>
  The downloader collaborator (\<open>YoutubeDL\<close>) is a parameter of the model: what its
  constructor does on the options, and what \<open>download\<close> does on the options and the list
  of urls. \<open>None\<close> is a normal return, \<open>Some e\<close> is raising \<open>e\<close>. Entering the
  \<open>with\<close> block yields the object itself; leaving it returns nothing, so it suppresses
  no exception.
\<close>

record collaborator =
  construct :: "pydict \<Rightarrow> py_exception option"
  download :: "pydict \<Rightarrow> string list \<Rightarrow> py_exception option"

text \<open>
  The effects of the program, in the order they happen: calls of the collaborator and writes
  to the two streams. The source performs no other effect.
\<close>

datatype event =
    Construct pydict
  | Download "string list"
  | Stdout string
  | Stderr string

text \<open>
  How a call ends: it returns, \<open>sys.exit(n)\<close> raises \<open>SystemExit(n)\<close>, or an exception
  that no handler caught leaves it.
\<close>

datatype completion = Returned | SysExit int | Propagated py_exception

record run =
  trace :: "event list"
  completion :: completion

section \<open>Printing\<close>

fun join_sep :: "string \<Rightarrow> string list \<Rightarrow> string" where
  "join_sep sep [] = []"
| "join_sep sep [x] = x"
| "join_sep sep (x # y # ys) = x @ sep @ join_sep sep (y # ys)"

text \<open>\<open>print(*args)\<close>: the arguments separated by one space, then a newline.\<close>

definition py_print :: "string list \<Rightarrow> string" where
  "py_print args = join_sep '' '' args @ [CHR 0x0A]"

section \<open>download_audio\<close>

text \<open>Truthiness of an optional string: \<open>None\<close> and the empty string are false.\<close>

fun truthy :: "string option \<Rightarrow> bool" where
  "truthy None = False"
| "truthy (Some s) = (s \<noteq> [])"

text \<open>Lines 34 to 48: the dict literal, then the conditional assignment.\<close>

definition ydl_opts :: "string \<Rightarrow> string option \<Rightarrow> pydict" where
  "ydl_opts output_dir ffmpeg_location =
     (let opts =
        [(''format'', PStr ''bestaudio/best''),
         (''outtmpl'', PStr (output_dir @ ''/%(title)s.%(ext)s'')),
         (''postprocessors'', PList [PDict
            [(''key'', PStr ''FFmpegExtractAudio''),
             (''preferredcodec'', PStr ''mp3''),
             (''preferredquality'', PStr ''192'')]]),
         (''quiet'', PBool False),
         (''noplaylist'', PBool True)]
      in case ffmpeg_location of
           None \<Rightarrow> opts
         | Some p \<Rightarrow>
             if truthy ffmpeg_location
             then AList.update ''ffmpeg_location'' (PStr p) opts
             else opts)"

text \<open>
  Lines 55 to 57: \<open>except Exception as e\<close> takes instances of \<open>Exception\<close>, prints
  to the error stream and exits with status 1; any other exception goes on to the caller.
\<close>

definition handler :: "event list \<Rightarrow> py_exception \<Rightarrow> run" where
  "handler tr e =
     (if is_Exception e
      then \<lparr>trace = tr @ [Stderr (py_print [''Error: '' @ message e])], completion = SysExit 1\<rparr>
      else \<lparr>trace = tr, completion = Propagated e\<rparr>)"

definition download_audio ::
  "collaborator \<Rightarrow> string \<Rightarrow> string \<Rightarrow> string option \<Rightarrow> run" where
  "download_audio ydl url output_dir ffmpeg_location =
     (let opts = ydl_opts output_dir ffmpeg_location in
      case construct ydl opts of
        Some e \<Rightarrow> handler [Construct opts] e
      | None \<Rightarrow>
          (let tr = [Construct opts,
                     Stdout (py_print [''Downloading and converting: '' @ url]),
                     Download [url]]
           in case download ydl opts [url] of
                Some e \<Rightarrow> handler tr e
              | None \<Rightarrow>
                  \<lparr>trace = tr @ [Stdout (py_print [''Download complete! MP3 saved to '', output_dir])],
                   completion = Returned\<rparr>))"

section \<open>main and the process\<close>

text \<open>
  What the command line supplied, as \<open>argparse\<close> recognised it: the positional url, and
  the two options, each present or not.
\<close>

record cli =
  url_arg :: string
  output_arg :: "string option"
  ffmpeg_location_arg :: "string option"

text \<open>The namespace \<open>parse_args\<close> returns (\<open>args.url\<close>, \<open>args.output\<close>,
  \<open>args.ffmpeg_location\<close>), with the declared defaults filled in.\<close>

record namespace =
  ns_url :: string
  ns_output :: string
  ns_ffmpeg_location :: "string option"

definition parse_args :: "cli \<Rightarrow> namespace" where
  "parse_args a =
     \<lparr>ns_url = url_arg a,
      ns_output = (case output_arg a of None \<Rightarrow> ''.'' | Some d \<Rightarrow> d),
      ns_ffmpeg_location = (case ffmpeg_location_arg a of None \<Rightarrow> None | Some p \<Rightarrow> Some p)\<rparr>"

definition main :: "collaborator \<Rightarrow> cli \<Rightarrow> run" where
  "main ydl a =
     (let args = parse_args a
      in download_audio ydl (ns_url args) (ns_output args) (ns_ffmpeg_location args))"




section \<open>Reading a run\<close>

fun constructed :: "event list \<Rightarrow> pydict list" where
  "constructed [] = []"
| "constructed (Construct opts # es) = opts # constructed es"
| "constructed (_ # es) = constructed es"

fun downloads :: "event list \<Rightarrow> string list list" where
  "downloads [] = []"
| "downloads (Download urls # es) = urls # downloads es"
| "downloads (_ # es) = downloads es"

fun stderr_of :: "event list \<Rightarrow> string list" where
  "stderr_of [] = []"
| "stderr_of (Stderr s # es) = s # stderr_of es"
| "stderr_of (_ # es) = stderr_of es"


text \<open>
  Concrete collaborators for the examples: one that succeeds, one whose download fails with
  an error, one whose download is interrupted (\<open>KeyboardInterrupt\<close>), and one whose
  download raises \<open>SystemExit(1)\<close>.
\<close>

definition ydl_ok :: collaborator where
  "ydl_ok = \<lparr>construct = (\<lambda>_. None), download = (\<lambda>_ _. None)\<rparr>"

definition ydl_fails :: collaborator where
  "ydl_fails = \<lparr>construct = (\<lambda>_. None),
                download = (\<lambda>_ _. Some (PyException True ''Video unavailable'' 1))\<rparr>"



text \<open>The value each constructed options dict holds under a key (\<open>None\<close>: key absent).\<close>

definition passed_value :: "run \<Rightarrow> string \<Rightarrow> pyval option list" where
  "passed_value r k = map (\<lambda>opts. map_of opts k) (constructed (trace r))"



definition cli_empty_ffmpeg :: cli where
  "cli_empty_ffmpeg = \<lparr>url_arg = ''https://www.youtube.com/watch?v=HGC5E5m17Fg'',
                        output_arg = None, ffmpeg_location_arg = Some []\<rparr>"

section \<open>Shared facts\<close>

lemma constructed_download_audio:
  "constructed (trace (download_audio ydl u d f)) = [ydl_opts d f]"
  by (simp add: download_audio_def handler_def Let_def split: option.splits)

lemma main_eq:
  "main ydl a = download_audio ydl (url_arg a) (ns_output (parse_args a)) (ns_ffmpeg_location (parse_args a))"
  by (simp add: main_def Let_def parse_args_def)

lemma map_of_ydl_opts_fixed:
  "k \<noteq> ''ffmpeg_location'' \<Longrightarrow>
   map_of (ydl_opts d f) k =
   map_of [(''format'', PStr ''bestaudio/best''),
           (''outtmpl'', PStr (d @ ''/%(title)s.%(ext)s'')),
           (''postprocessors'', PList [PDict
              [(''key'', PStr ''FFmpegExtractAudio''),
               (''preferredcodec'', PStr ''mp3''),
               (''preferredquality'', PStr ''192'')]]),
           (''quiet'', PBool False),
           (''noplaylist'', PBool True)] k"
  by (cases f) (simp_all add: ydl_opts_def Let_def update_conv')

lemma map_of_ydl_opts_ffmpeg:
  "map_of (ydl_opts d f) ''ffmpeg_location'' =
   (case f of None \<Rightarrow> None | Some p \<Rightarrow> if p = [] then None else Some (PStr p))"
  by (cases f) (simp_all add: ydl_opts_def Let_def update_conv')

lemma download_audio_success_trace:
  "construct ydl (ydl_opts d f) = None \<Longrightarrow> download ydl (ydl_opts d f) [u] = None \<Longrightarrow>
   download_audio ydl u d f =
   \<lparr>trace = [Construct (ydl_opts d f),
              Stdout (''Downloading and converting: '' @ u @ [CHR 0x0A]),
              Download [u],
              Stdout (''Download complete! MP3 saved to  '' @ d @ [CHR 0x0A])],
    completion = Returned\<rparr>"
  by (simp add: download_audio_def Let_def py_print_def)

section \<open>The options structure\<close>

text \<open>
  C1. For every url, output directory and ffmpeg location, \<open>download_audio\<close> constructs the
  downloader once, on an options dict whose \<open>format\<close> is \<open>bestaudio/best\<close>, whose
  \<open>outtmpl\<close> is the output directory followed by \<open>/%(title)s.%(ext)s\<close>, whose
  \<open>postprocessors\<close> is a list of exactly one step, \<open>FFmpegExtractAudio\<close> to \<open>mp3\<close> at
  quality \<open>192\<close>, and whose \<open>noplaylist\<close> is \<open>True\<close>.
\<close>

theorem download_audio_options:
  "constructed (trace (download_audio ydl u d f)) = [ydl_opts d f] \<and>
   map_of (ydl_opts d f) ''format'' = Some (PStr ''bestaudio/best'') \<and>
   map_of (ydl_opts d f) ''outtmpl'' = Some (PStr (d @ ''/%(title)s.%(ext)s'')) \<and>
   map_of (ydl_opts d f) ''postprocessors'' =
     Some (PList [PDict [(''key'', PStr ''FFmpegExtractAudio''),
                         (''preferredcodec'', PStr ''mp3''),
                         (''preferredquality'', PStr ''192'')]]) \<and>
   map_of (ydl_opts d f) ''noplaylist'' = Some (PBool True)"
  by (simp add: constructed_download_audio map_of_ydl_opts_fixed)

text \<open>
  C4 (as stated, refuted). The option \<open>--ffmpeg-location\<close> is supplied with the empty
  string, and the options passed to the downloader have no \<open>ffmpeg_location\<close> key.
\<close>

theorem ffmpeg_location_supplied_empty_absent:
  "ffmpeg_location_arg cli_empty_ffmpeg = Some [] \<and>
   passed_value (main ydl_ok cli_empty_ffmpeg) ''ffmpeg_location'' = [None]"
  by (simp add: cli_empty_ffmpeg_def passed_value_def main_eq constructed_download_audio
      map_of_ydl_opts_ffmpeg parse_args_def)

text \<open>
  C4 (amended). The options passed to the downloader hold the value of
  \<open>--ffmpeg-location\<close> under the key \<open>ffmpeg_location\<close> when the option is supplied
  with a non-empty value; when it is omitted, or supplied empty, the key is absent.
\<close>

theorem ffmpeg_location_routed:
  "passed_value (main ydl a) ''ffmpeg_location'' =
   [case ffmpeg_location_arg a of
      None \<Rightarrow> None
    | Some p \<Rightarrow> if p = [] then None else Some (PStr p)]"
  by (simp add: passed_value_def main_eq constructed_download_audio map_of_ydl_opts_ffmpeg
      parse_args_def split: option.splits)

text \<open>
  C5. When \<open>-o\<close> is omitted, the output directory is \<open>.\<close> and the output template in
  the options passed to the downloader is \<open>./%(title)s.%(ext)s\<close>.
\<close>

theorem output_default_current_directory:
  "ns_output (parse_args (a\<lparr>output_arg := None\<rparr>)) = ''.'' \<and>
   passed_value (main ydl (a\<lparr>output_arg := None\<rparr>)) ''outtmpl'' =
     [Some (PStr ''./%(title)s.%(ext)s'')]"
  by (simp add: passed_value_def main_eq constructed_download_audio map_of_ydl_opts_fixed
      parse_args_def)

text \<open>
  C9. An empty string as ffmpeg location is treated as \<open>None\<close>: the options built are
  the same, and the key \<open>ffmpeg_location\<close> is absent from them.
\<close>

theorem empty_ffmpeg_location_as_none:
  "ydl_opts d (Some []) = ydl_opts d None \<and>
   constructed (trace (download_audio ydl u d (Some []))) =
     constructed (trace (download_audio ydl u d None)) \<and>
   passed_value (download_audio ydl u d (Some [])) ''ffmpeg_location'' = [None]"
  by (simp add: passed_value_def constructed_download_audio map_of_ydl_opts_ffmpeg)
     (simp add: ydl_opts_def)

section \<open>Delegation\<close>


text \<open>
  C8. The download operation is invoked at most once in a run. When it raises, nothing is
  retried and nothing is cleaned up: the only effect after the failed call is the error line
  of the handler, when the exception is an instance of \<open>Exception\<close>, and none otherwise.
  The same holds when the constructor raises, and then download is not invoked at all.
\<close>

theorem download_at_most_once:
  "length (downloads (trace (download_audio ydl u d f))) \<le> 1 \<and>
   (construct ydl (ydl_opts d f) = None \<and> download ydl (ydl_opts d f) [u] = Some e \<longrightarrow>
    trace (download_audio ydl u d f) =
      [Construct (ydl_opts d f),
       Stdout (py_print [''Downloading and converting: '' @ u]),
       Download [u]] @
      (if is_Exception e then [Stderr (py_print [''Error: '' @ message e])] else []) \<and>
    completion (download_audio ydl u d f) =
      (if is_Exception e then SysExit 1 else Propagated e)) \<and>
   (construct ydl (ydl_opts d f) = Some e' \<longrightarrow>
    trace (download_audio ydl u d f) =
      Construct (ydl_opts d f) #
      (if is_Exception e' then [Stderr (py_print [''Error: '' @ message e'])] else []))"
  by (simp add: download_audio_def handler_def Let_def split: option.splits)

theorem download_at_most_once_witness:
  "construct ydl_fails (ydl_opts ''.'' None) = None \<and>
   download ydl_fails (ydl_opts ''.'' None) [''u''] = Some (PyException True ''Video unavailable'' 1) \<and>
   downloads (trace (download_audio ydl_fails ''u'' ''.'' None)) = [[''u'']] \<and>
   stderr_of (trace (download_audio ydl_fails ''u'' ''.'' None)) =
     [''Error: Video unavailable'' @ [CHR 0x0A]] \<and>
   completion (download_audio ydl_fails ''u'' ''.'' None) = SysExit 1"
  using download_at_most_once
    [of ydl_fails "''u''" "''.''" None "PyException True ''Video unavailable'' 1" "PyException True [] 1"]
  by (simp add: ydl_fails_def py_print_def)

section \<open>Errors and exit status\<close>







end
